theory Spec2Isabelle
  imports Complex_Main
begin

section \<open>Event Store (context/UserContext.tsx)\<close>

text \<open>
  The store is the React provider \<open>UserProvider\<close>: three pieces of state (\<open>profile\<close>,
  \<open>checkIns\<close>, \<open>alerts\<close>) and the operations \<open>setProfile\<close>, \<open>addCheckIn\<close> and
  \<open>logAlertEvent\<close>. The string-literal union types \<open>UserRole\<close> and
  \<open>AlertEventType\<close> are datatypes whose constructors carry the source's literals:
  \<open>"under18"\<close> is \<open>Under18\<close>, \<open>"shake"\<close> is \<open>Shake\<close>, \<open>"noise_high"\<close> is
  \<open>Noise_high\<close>, \<open>"light_high"\<close> is \<open>Light_high\<close>. The specification writes these
  values as \<open>minor\<close>, \<open>movement\<close>, \<open>noise\<close> and \<open>light\<close>, and the mood
  \<open>"idk"\<close> as \<open>unknown\<close>.

  A mood is modelled as the string it is at run time. The annotation \<open>mood: MoodType\<close>
  of \<open>addCheckIn\<close> is erased by compilation, the check-in screen obtains \<open>addCheckIn\<close>
  through \<open>useUser() as any\<close>, and the overview screen normalises stored moods such as
  \<open>"anxious"\<close> or \<open>"ok"\<close>; so what the store holds depends on what it is handed.
  \<open>MoodType\<close> is the set of the six literals of the type.
\<close>

definition MoodType :: "string set" where
  "MoodType = {''calm'', ''okay'', ''overwhelmed'', ''angry'', ''sad'', ''idk''}"

datatype UserRole = Individual | Parent | Under18 | Guest

record UserProfile =
  name :: string
  email :: string
  role :: UserRole

record CheckIn =
  ci_id :: string
  ci_timestamp :: int
  ci_mood :: string
  ci_symptoms :: "string list"

datatype AlertEventType = Shake | Noise_high | Light_high | Manual_high_risk

record AlertEvent =
  ae_id :: string
  ae_type :: AlertEventType
  ae_message :: string
  ae_timestamp :: int

record UserState =
  profile :: "UserProfile option"
  checkIns :: "CheckIn list"
  alerts :: "AlertEvent list"

text \<open>
  Building an entry reads the environment three times, in the order of the object
  literal: \<open>Date.now()\<close> and \<open>Math.random().toString(16)\<close> for the identifier, then
  \<open>Date.now()\<close> again for the timestamp. The three readings are an argument of the model.
\<close>

record Readings =
  date_now_id :: int
  math_random_hex :: string
  date_now_ts :: int

definition digit :: "nat \<Rightarrow> char" where
  "digit d = char_of (48 + d)"

function digits :: "nat \<Rightarrow> string" where
  "digits n = (if n < 10 then [digit n] else digits (n div 10) @ [digit (n mod 10)])"
  by pat_completeness auto
termination
  by (relation "measure (\<lambda>n. n)") auto

definition number_toString :: "int \<Rightarrow> string" where
  "number_toString i = (if i < 0 then CHR ''-'' # digits (nat (- i)) else digits (nat i))"

text \<open>The template literal \<open>`${Date.now()}_${Math.random().toString(16).slice(2)}`\<close>.\<close>

definition fresh_id :: "Readings \<Rightarrow> string" where
  "fresh_id r = number_toString (date_now_id r) @ ''_'' @ drop 2 (math_random_hex r)"

definition initialState :: UserState where
  "initialState = \<lparr>profile = None, checkIns = [], alerts = []\<rparr>"

definition setProfile :: "UserProfile option \<Rightarrow> 'a UserState_scheme \<Rightarrow> 'a UserState_scheme" where
  "setProfile p s = s\<lparr>profile := p\<rparr>"

definition newCheckIn :: "Readings \<Rightarrow> string \<Rightarrow> string list \<Rightarrow> CheckIn" where
  "newCheckIn r m syms =
     \<lparr>ci_id = fresh_id r, ci_timestamp = date_now_ts r, ci_mood = m, ci_symptoms = syms\<rparr>"

definition addCheckIn ::
  "Readings \<Rightarrow> string \<Rightarrow> string list \<Rightarrow> 'a UserState_scheme \<Rightarrow> 'a UserState_scheme" where
  "addCheckIn r m syms s = s\<lparr>checkIns := newCheckIn r m syms # checkIns s\<rparr>"

definition newAlertEvent :: "Readings \<Rightarrow> AlertEventType \<Rightarrow> string \<Rightarrow> AlertEvent" where
  "newAlertEvent r t msg =
     \<lparr>ae_id = fresh_id r, ae_type = t, ae_message = msg, ae_timestamp = date_now_ts r\<rparr>"

definition logAlertEvent ::
  "Readings \<Rightarrow> AlertEventType \<Rightarrow> string \<Rightarrow> 'a UserState_scheme \<Rightarrow> 'a UserState_scheme" where
  "logAlertEvent r t msg s = s\<lparr>alerts := newAlertEvent r t msg # alerts s\<rparr>"




definition addCheckIns :: "(Readings \<times> string \<times> string list) list \<Rightarrow> UserState \<Rightarrow> UserState" where
  "addCheckIns calls s = fold (\<lambda>(r, m, syms). addCheckIn r m syms) calls s"

definition logAlertEvents :: "(Readings \<times> AlertEventType \<times> string) list \<Rightarrow> UserState \<Rightarrow> UserState" where
  "logAlertEvents calls s = fold (\<lambda>(r, t, msg). logAlertEvent r t msg) calls s"



section \<open>Effects outside the store (App.tsx)\<close>

text \<open>
  The watchers live in \<open>App.tsx\<close>. Besides calling the store they request haptic cues and
  local notifications and write to the console. \<open>App\<close> extends the store's state with a
  trace of these effects, so that "nothing was emitted" can be stated. A notification
  request is recorded by its \<open>data.type\<close> tag and its trigger (\<open>None\<close> for
  \<open>trigger: null\<close>, that is immediately; \<open>Some n\<close> for \<open>{ seconds: n }\<close>); the
  fixed title, body and sound literals are read by no operation and are left out.

  Sensor values and metering levels are JavaScript numbers; they are modelled as reals, and
  the comparisons against the threshold literals are the only operations on them apart
  from the vector norm of the accelerometer sample. Times are the integer milliseconds of
  \<open>Date.now()\<close>.
\<close>

record NotificationRequest =
  data_type :: string
  trigger_seconds :: "nat option"

datatype ConsoleLine = Log string | Warn string string

record App = UserState +
  haptics :: nat
  scheduled :: "NotificationRequest list"
  console :: "ConsoleLine list"

definition initialApp :: App where
  "initialApp =
     \<lparr>profile = None, checkIns = [], alerts = [], haptics = 0, scheduled = [], console = []\<rparr>"

definition hapticWarning :: "App \<Rightarrow> App" where
  "hapticWarning a = a\<lparr>haptics := Suc (haptics a)\<rparr>"

definition scheduleNotificationAsync :: "NotificationRequest \<Rightarrow> App \<Rightarrow> App" where
  "scheduleNotificationAsync req a = a\<lparr>scheduled := scheduled a @ [req]\<rparr>"

definition console_warn :: "string \<Rightarrow> string \<Rightarrow> App \<Rightarrow> App" where
  "console_warn msg err a = a\<lparr>console := console a @ [Warn msg err]\<rparr>"

text \<open>
  \<open>scheduleNotificationAsync\<close> returns a promise. Each call site attaches
  \<open>.catch((err) => console.warn(msg, err))\<close>; when the promise settles, the handler runs
  only on rejection.
\<close>

datatype Settled = Fulfilled | Rejected string

definition catch_warn :: "string \<Rightarrow> Settled \<Rightarrow> App \<Rightarrow> App" where
  "catch_warn msg outcome a =
     (case outcome of Fulfilled \<Rightarrow> a | Rejected err \<Rightarrow> console_warn msg err a)"

section \<open>Movement watcher (GlobalShakeWatcher)\<close>

record ShakeWatcher =
  lastShakeTime :: int
  shakeValue :: real

definition initialShakeWatcher :: ShakeWatcher where
  "initialShakeWatcher = \<lparr>lastShakeTime = 0, shakeValue = 0\<rparr>"

definition SHAKE_THRESHOLD :: real where
  "SHAKE_THRESHOLD = 2.3"

definition SHAKE_COOLDOWN_MS :: int where
  "SHAKE_COOLDOWN_MS = 6000"

definition magnitude :: "real \<Rightarrow> real \<Rightarrow> real \<Rightarrow> real" where
  "magnitude x y z = sqrt (x * x + y * y + z * z)"

definition shakeSymptoms :: "string list" where
  "shakeSymptoms = [''Phone shaken hard'', ''Possible anger / overload moment'']"

definition shakeMessage :: string where
  "shakeMessage = ''Strong phone movement detected (possible anger / overload).''"

definition shakeNotification :: NotificationRequest where
  "shakeNotification = \<lparr>data_type = ''high_risk_shake'', trigger_seconds = None\<rparr>"

text \<open>
  The accelerometer listener, called with one sample \<open>(x, y, z)\<close>. \<open>now\<close> is the
  listener's own \<open>Date.now()\<close>; \<open>r1\<close> and \<open>r2\<close> are the readings taken inside
  \<open>addCheckIn\<close> and \<open>logAlertEvent\<close>.
\<close>

fun shakeListener ::
  "real \<Rightarrow> real \<Rightarrow> real \<Rightarrow> int \<Rightarrow> Readings \<Rightarrow> Readings \<Rightarrow> ShakeWatcher \<times> App \<Rightarrow> ShakeWatcher \<times> App" where
  "shakeListener x y z now r1 r2 (w, a) =
     (let total = magnitude x y z;
          w1 = w\<lparr>shakeValue := total\<rparr>
      in if total > SHAKE_THRESHOLD \<and> now - lastShakeTime w1 > SHAKE_COOLDOWN_MS then
           (w1\<lparr>lastShakeTime := now\<rparr>,
            scheduleNotificationAsync shakeNotification
              (logAlertEvent r2 Shake shakeMessage
                (addCheckIn r1 ''angry'' shakeSymptoms
                  (hapticWarning a))))
         else (w1, a))"

definition shakeNotificationSettled :: "Settled \<Rightarrow> App \<Rightarrow> App" where
  "shakeNotificationSettled outcome a = catch_warn ''Failed to schedule shake notification:'' outcome a"

text \<open>
  A sample stream: each sample carries the values the listener call reads. \<open>fired\<close>
  observes whether a sample produced a CheckIn (the check-in log grew by one), and
  \<open>previousTrigger\<close> is the time of the last sample of a stream that did, if any: it is
  read off the check-in log, not off the watcher's own variable.
\<close>

record ShakeSample =
  sample_x :: real
  sample_y :: real
  sample_z :: real
  sample_now :: int
  sample_r1 :: Readings
  sample_r2 :: Readings

definition shakeSample :: "ShakeSample \<Rightarrow> ShakeWatcher \<times> App \<Rightarrow> ShakeWatcher \<times> App" where
  "shakeSample s st =
     shakeListener (sample_x s) (sample_y s) (sample_z s) (sample_now s) (sample_r1 s) (sample_r2 s) st"

definition shakeStream :: "ShakeSample list \<Rightarrow> ShakeWatcher \<times> App \<Rightarrow> ShakeWatcher \<times> App" where
  "shakeStream ss st = fold shakeSample ss st"

definition fired :: "ShakeSample \<Rightarrow> ShakeWatcher \<times> App \<Rightarrow> bool" where
  "fired s st = (length (checkIns (snd (shakeSample s st))) = Suc (length (checkIns (snd st))))"

fun lastFired :: "ShakeSample list \<Rightarrow> ShakeWatcher \<times> App \<Rightarrow> int option \<Rightarrow> int option" where
  "lastFired [] st prev = prev"
| "lastFired (s # ss) st prev =
     lastFired ss (shakeSample s st) (if fired s st then Some (sample_now s) else prev)"

definition previousTrigger :: "ShakeSample list \<Rightarrow> ShakeWatcher \<times> App \<Rightarrow> int option" where
  "previousTrigger ss st = lastFired ss st None"

section \<open>Noise watcher (GlobalNoiseWatcher)\<close>

record NoiseWatcher =
  lastNoiseAlert :: int
  noiseDebug :: "real option"

definition initialNoiseWatcher :: NoiseWatcher where
  "initialNoiseWatcher = \<lparr>lastNoiseAlert = 0, noiseDebug = None\<rparr>"

text \<open>
  One pass of the \<open>while (!cancelled)\<close> loop records for about 2.5 s. What the pass
  observes is: an error thrown by \<open>prepareToRecordAsync\<close> or \<open>startAsync\<close> (caught by the
  outer \<open>try\<close>), the status updates delivered while recording (\<open>None\<close> when
  \<open>typeof s.metering\<close> is not \<open>"number"\<close>), and an error thrown by
  \<open>stopAndUnloadAsync\<close> (caught by the inner \<open>try\<close>, reached only when nothing was thrown
  before).
\<close>

record NoiseWindow =
  recording_error :: "string option"
  meterings :: "real option list"
  stop_error :: "string option"

definition VERY_LOUD_THRESHOLD :: real where
  "VERY_LOUD_THRESHOLD = - 12"

definition NOISE_COOLDOWN_MS :: int where
  "NOISE_COOLDOWN_MS = 5 * 60 * 1000"

fun peakLevel :: "real option list \<Rightarrow> real \<Rightarrow> real" where
  "peakLevel [] maxLevel = maxLevel"
| "peakLevel (None # ss) maxLevel = peakLevel ss maxLevel"
| "peakLevel (Some m # ss) maxLevel = peakLevel ss (if m > maxLevel then m else maxLevel)"

fun lastMetering :: "real option list \<Rightarrow> real option \<Rightarrow> real option" where
  "lastMetering [] d = d"
| "lastMetering (None # ss) d = lastMetering ss d"
| "lastMetering (Some m # ss) d = lastMetering ss (Some m)"

definition recordingWarnings :: "NoiseWindow \<Rightarrow> App \<Rightarrow> App" where
  "recordingWarnings win a =
     (case recording_error win of
        Some err \<Rightarrow> console_warn ''Noise recording error:'' err a
      | None \<Rightarrow>
          (case stop_error win of
             Some err \<Rightarrow> console_warn ''Noise recording stop error:'' err a
           | None \<Rightarrow> a))"

definition noiseSymptoms :: "string list" where
  "noiseSymptoms = [''Very loud environment'', ''Possible sound overload moment'']"

definition noiseMessage :: string where
  "noiseMessage = ''Very loud environment detected (noise overload risk).''"

definition noiseNotification :: NotificationRequest where
  "noiseNotification = \<lparr>data_type = ''noise_high'', trigger_seconds = None\<rparr>"

definition noiseFollowUp :: NotificationRequest where
  "noiseFollowUp = \<lparr>data_type = ''noise_followup'', trigger_seconds = Some 90\<rparr>"

fun noiseCycle ::
  "NoiseWindow \<Rightarrow> int \<Rightarrow> Readings \<Rightarrow> Readings \<Rightarrow> NoiseWatcher \<times> App \<Rightarrow> NoiseWatcher \<times> App" where
  "noiseCycle win now r1 r2 (w, a) =
     (let maxLevel = peakLevel (meterings win) (- 160);
          w1 = w\<lparr>noiseDebug := lastMetering (meterings win) (noiseDebug w)\<rparr>;
          a1 = recordingWarnings win a
      in if maxLevel > VERY_LOUD_THRESHOLD \<and> now - lastNoiseAlert w1 > NOISE_COOLDOWN_MS then
           (w1\<lparr>lastNoiseAlert := now\<rparr>,
            scheduleNotificationAsync noiseFollowUp
              (scheduleNotificationAsync noiseNotification
                (logAlertEvent r2 Manual_high_risk noiseMessage
                  (addCheckIn r1 ''overwhelmed'' noiseSymptoms a1))))
         else (w1, a1))"

definition noiseNotificationSettled :: "Settled \<Rightarrow> App \<Rightarrow> App" where
  "noiseNotificationSettled outcome a = catch_warn ''Failed to schedule noise notification:'' outcome a"

definition noiseFollowUpSettled :: "Settled \<Rightarrow> App \<Rightarrow> App" where
  "noiseFollowUpSettled outcome a =
     catch_warn ''Failed to schedule noise follow-up notification:'' outcome a"

section \<open>Light watcher (GlobalLightWatcher)\<close>

record LightWatcher =
  lastLightAlert :: int
  lightDebug :: "real option"

definition initialLightWatcher :: LightWatcher where
  "initialLightWatcher = \<lparr>lastLightAlert = 0, lightDebug = None\<rparr>"

text \<open>
  One pass of the loop reads \<open>getSystemBrightnessAsync\<close>; if that throws it reads
  \<open>getBrightnessAsync\<close>; if that throws too the error is logged and \<open>level\<close> keeps its
  initial value 0. \<open>Inl err\<close> is a call that throws \<open>err\<close>.
\<close>

record LightReading =
  systemBrightness :: "string + real"
  appBrightness :: "string + real"

definition VERY_BRIGHT_THRESHOLD :: real where
  "VERY_BRIGHT_THRESHOLD = 0.85"

definition LIGHT_COOLDOWN_MS :: int where
  "LIGHT_COOLDOWN_MS = 5 * 60 * 1000"

definition readLevel :: "LightReading \<Rightarrow> App \<Rightarrow> real \<times> App" where
  "readLevel rd a =
     (case systemBrightness rd of
        Inr l \<Rightarrow> (l, a)
      | Inl _ \<Rightarrow>
          (case appBrightness rd of
             Inr l \<Rightarrow> (l, a)
           | Inl err \<Rightarrow> (0, console_warn ''Light reading error:'' err a)))"

definition lightSymptoms :: "string list" where
  "lightSymptoms = [''Very bright screen / light'', ''Possible light sensitivity trigger'']"

definition lightMessage :: string where
  "lightMessage = ''Very bright screen / ambient light detected (light overload risk).''"

definition lightNotification :: NotificationRequest where
  "lightNotification = \<lparr>data_type = ''light_high'', trigger_seconds = None\<rparr>"

fun lightCycle ::
  "LightReading \<Rightarrow> int \<Rightarrow> Readings \<Rightarrow> Readings \<Rightarrow> LightWatcher \<times> App \<Rightarrow> LightWatcher \<times> App" where
  "lightCycle rd now r1 r2 (w, a) =
     (let level = fst (readLevel rd a);
          a1 = snd (readLevel rd a);
          w1 = w\<lparr>lightDebug := Some level\<rparr>
      in if level \<ge> VERY_BRIGHT_THRESHOLD \<and> now - lastLightAlert w1 > LIGHT_COOLDOWN_MS then
           (w1\<lparr>lastLightAlert := now\<rparr>,
            scheduleNotificationAsync lightNotification
              (logAlertEvent r2 Manual_high_risk lightMessage
                (addCheckIn r1 ''overwhelmed'' lightSymptoms a1)))
         else (w1, a1))"

definition lightNotificationSettled :: "Settled \<Rightarrow> App \<Rightarrow> App" where
  "lightNotificationSettled outcome a = catch_warn ''Failed to schedule light notification:'' outcome a"

section \<open>Sensor heuristic (screens/MoodOverviewScreen.tsx)\<close>

text \<open>
  \<open>isSensorLike\<close> takes a value of type \<open>any\<close>. What it reads of it is the field
  \<open>source\<close> and the field \<open>symptoms\<close> when that is an array. A \<open>CheckIn\<close> object has
  no \<open>source\<close> field. The strings of this program are ASCII, and \<open>toLowerCase\<close> is
  modelled on the ASCII letters.
\<close>

record AnyEntry =
  source :: "string option"
  symptoms_array :: "string list option"

definition entryOfCheckIn :: "CheckIn \<Rightarrow> AnyEntry" where
  "entryOfCheckIn c = \<lparr>source = None, symptoms_array = Some (ci_symptoms c)\<rparr>"

definition lowerChar :: "char \<Rightarrow> char" where
  "lowerChar c =
     (let n = (of_char c :: nat) in if 65 \<le> n \<and> n \<le> 90 then char_of (n + 32) else c)"

definition toLowerCase :: "string \<Rightarrow> string" where
  "toLowerCase s = map lowerChar s"

fun join :: "string \<Rightarrow> string list \<Rightarrow> string" where
  "join sep [] = []"
| "join sep [x] = x"
| "join sep (x # y # ys) = x @ sep @ join sep (y # ys)"

fun startsWith :: "string \<Rightarrow> string \<Rightarrow> bool" where
  "startsWith s [] = True"
| "startsWith [] (c # cs) = False"
| "startsWith (d # ds) (c # cs) = (d = c \<and> startsWith ds cs)"

fun includes_str :: "string \<Rightarrow> string \<Rightarrow> bool" where
  "includes_str [] needle = startsWith [] needle"
| "includes_str (d # ds) needle = (startsWith (d # ds) needle \<or> includes_str ds needle)"

definition isSensorLike :: "AnyEntry \<Rightarrow> bool" where
  "isSensorLike entry =
     (if source entry = Some ''sensor'' then True
      else
        let syms = (case symptoms_array entry of Some xs \<Rightarrow> xs | None \<Rightarrow> []);
            text = toLowerCase (join '' '' syms)
        in if includes_str text ''phone shaken hard'' then True
           else if includes_str text ''very loud environment'' then True
           else if includes_str text ''very bright screen'' then True
           else False)"

section \<open>Manual check-in (screens/CheckInScreen.tsx)\<close>

text \<open>
  The mood grid offers six buttons; pressing one calls \<open>setSelectedMood\<close> with its mood.
  \<open>handleConfirm\<close> returns at once when no mood is selected (\<open>!selectedMood\<close>, which
  also holds of the empty string) and otherwise calls \<open>addCheckIn\<close>.
\<close>

definition moodButtons :: "string list" where
  "moodButtons = [''calm'', ''okay'', ''overwhelmed'', ''angry'', ''sad'', ''idk'']"

definition handleConfirm ::
  "string option \<Rightarrow> string list \<Rightarrow> Readings \<Rightarrow> 'a UserState_scheme \<Rightarrow> 'a UserState_scheme" where
  "handleConfirm selectedMood selectedBody r s =
     (case selectedMood of
        None \<Rightarrow> s
      | Some m \<Rightarrow>
          if m = [] then s
          else
            let bodyCopy =
                  (if length selectedBody > 0 then selectedBody
                   else [''No body notes added this time''])
            in addCheckIn r (if m = ''idk'' then ''idk'' else m) bodyCopy s)"

section \<open>Concrete inputs\<close>

text \<open>
  The readings taken inside a store operation at time \<open>t\<close>, with a fixed value of
  \<open>Math.random().toString(16)\<close>; used where a property is evaluated on an example.
\<close>

definition sampleReadings :: "int \<Rightarrow> Readings" where
  "sampleReadings t = \<lparr>date_now_id = t, math_random_hex = ''0.8c4f'', date_now_ts = t\<rparr>"

definition hardShake :: "int \<Rightarrow> ShakeSample" where
  "hardShake t = \<lparr>sample_x = 0, sample_y = 0, sample_z = 3, sample_now = t,
     sample_r1 = sampleReadings t, sample_r2 = sampleReadings t\<rparr>"

definition gentleMove :: "int \<Rightarrow> ShakeSample" where
  "gentleMove t = \<lparr>sample_x = 0, sample_y = 0, sample_z = 1, sample_now = t,
     sample_r1 = sampleReadings t, sample_r2 = sampleReadings t\<rparr>"

section \<open>Auxiliary facts\<close>

lemma fold_addCheckIn_checkIns:
  "checkIns (fold (\<lambda>(r, m, syms). addCheckIn r m syms) calls s) =
     rev (map (\<lambda>(r, m, syms). newCheckIn r m syms) calls) @ checkIns s"
  by (induction calls arbitrary: s) (auto simp: addCheckIn_def)

lemma fold_logAlertEvent_alerts:
  "alerts (fold (\<lambda>(r, t, msg). logAlertEvent r t msg) calls s) =
     rev (map (\<lambda>(r, t, msg). newAlertEvent r t msg) calls) @ alerts s"
  by (induction calls arbitrary: s) (auto simp: logAlertEvent_def)

lemma console_warn_frame [simp]:
  "checkIns (console_warn msg err a) = checkIns a"
  "alerts (console_warn msg err a) = alerts a"
  "scheduled (console_warn msg err a) = scheduled a"
  "haptics (console_warn msg err a) = haptics a"
  "profile (console_warn msg err a) = profile a"
  by (simp_all add: console_warn_def)

lemma recordingWarnings_frame [simp]:
  "checkIns (recordingWarnings win a) = checkIns a"
  "alerts (recordingWarnings win a) = alerts a"
  "scheduled (recordingWarnings win a) = scheduled a"
  by (simp_all add: recordingWarnings_def split: option.splits)

lemma readLevel_frame [simp]:
  "checkIns (snd (readLevel rd a)) = checkIns a"
  "alerts (snd (readLevel rd a)) = alerts a"
  "scheduled (snd (readLevel rd a)) = scheduled a"
  by (simp_all add: readLevel_def split: sum.splits)

lemma magnitude_z: "magnitude 0 0 z = \<bar>z\<bar>"
  by (simp add: magnitude_def)

lemma shake_sensor_text:
  "includes_str (toLowerCase (join '' '' shakeSymptoms)) ''phone shaken hard''"
  by code_simp

lemma noise_sensor_text:
  "includes_str (toLowerCase (join '' '' noiseSymptoms)) ''very loud environment''"
  by code_simp

lemma light_sensor_text:
  "includes_str (toLowerCase (join '' '' lightSymptoms)) ''very bright screen''"
  by code_simp

lemma isSensorLike_shake: "isSensorLike (entryOfCheckIn (newCheckIn r ''angry'' shakeSymptoms))"
  by (simp add: isSensorLike_def entryOfCheckIn_def newCheckIn_def shake_sensor_text)

lemma isSensorLike_noise: "isSensorLike (entryOfCheckIn (newCheckIn r ''overwhelmed'' noiseSymptoms))"
  by (simp add: isSensorLike_def entryOfCheckIn_def newCheckIn_def noise_sensor_text)

lemma isSensorLike_light: "isSensorLike (entryOfCheckIn (newCheckIn r ''overwhelmed'' lightSymptoms))"
  by (simp add: isSensorLike_def entryOfCheckIn_def newCheckIn_def light_sensor_text)

lemma shake_emits:
  "\<exists>new. checkIns (snd (shakeListener x y z now r1 r2 (sw, a))) = new @ checkIns a
       \<and> list_all (\<lambda>c. isSensorLike (entryOfCheckIn c)) new"
proof (cases "magnitude x y z > SHAKE_THRESHOLD \<and> now - lastShakeTime sw > SHAKE_COOLDOWN_MS")
  case True
  then have "checkIns (snd (shakeListener x y z now r1 r2 (sw, a))) =
      [newCheckIn r1 ''angry'' shakeSymptoms] @ checkIns a"
    by (simp add: Let_def scheduleNotificationAsync_def logAlertEvent_def addCheckIn_def
        hapticWarning_def)
  moreover have "list_all (\<lambda>c. isSensorLike (entryOfCheckIn c)) [newCheckIn r1 ''angry'' shakeSymptoms]"
    by (simp add: isSensorLike_shake)
  ultimately show ?thesis by blast
next
  case False
  then have "checkIns (snd (shakeListener x y z now r1 r2 (sw, a))) = [] @ checkIns a"
    by (auto simp add: Let_def)
  then show ?thesis by (intro exI [of _ "[]"]) simp
qed

lemma noise_emits:
  "\<exists>new. checkIns (snd (noiseCycle win now r1 r2 (nw, a))) = new @ checkIns a
       \<and> list_all (\<lambda>c. isSensorLike (entryOfCheckIn c)) new"
proof (cases "peakLevel (meterings win) (- 160) > VERY_LOUD_THRESHOLD
              \<and> now - lastNoiseAlert nw > NOISE_COOLDOWN_MS")
  case True
  then have "checkIns (snd (noiseCycle win now r1 r2 (nw, a))) =
      [newCheckIn r1 ''overwhelmed'' noiseSymptoms] @ checkIns a"
    by (simp add: Let_def scheduleNotificationAsync_def logAlertEvent_def addCheckIn_def)
  moreover have "list_all (\<lambda>c. isSensorLike (entryOfCheckIn c)) [newCheckIn r1 ''overwhelmed'' noiseSymptoms]"
    by (simp add: isSensorLike_noise)
  ultimately show ?thesis by blast
next
  case False
  then have "checkIns (snd (noiseCycle win now r1 r2 (nw, a))) = [] @ checkIns a"
    by (auto simp add: Let_def)
  then show ?thesis by (intro exI [of _ "[]"]) simp
qed

lemma light_emits:
  "\<exists>new. checkIns (snd (lightCycle rd now r1 r2 (lw, a))) = new @ checkIns a
       \<and> list_all (\<lambda>c. isSensorLike (entryOfCheckIn c)) new"
proof (cases "fst (readLevel rd a) \<ge> VERY_BRIGHT_THRESHOLD
              \<and> now - lastLightAlert lw > LIGHT_COOLDOWN_MS")
  case True
  then have "checkIns (snd (lightCycle rd now r1 r2 (lw, a))) =
      [newCheckIn r1 ''overwhelmed'' lightSymptoms] @ checkIns a"
    by (simp add: Let_def scheduleNotificationAsync_def logAlertEvent_def addCheckIn_def)
  moreover have "list_all (\<lambda>c. isSensorLike (entryOfCheckIn c)) [newCheckIn r1 ''overwhelmed'' lightSymptoms]"
    by (simp add: isSensorLike_light)
  ultimately show ?thesis by blast
next
  case False
  then have "checkIns (snd (lightCycle rd now r1 r2 (lw, a))) = [] @ checkIns a"
    by (auto simp add: Let_def)
  then show ?thesis by (intro exI [of _ "[]"]) simp
qed



lemma watchers_hand_MoodType:
  "ci_mood (newCheckIn r ''angry'' shakeSymptoms) \<in> MoodType"
  "ci_mood (newCheckIn r ''overwhelmed'' noiseSymptoms) \<in> MoodType"
  "ci_mood (newCheckIn r ''overwhelmed'' lightSymptoms) \<in> MoodType"
  by (simp_all add: newCheckIn_def MoodType_def)

lemma handleConfirm_hands_MoodType:
  assumes "m \<in> set moodButtons"
  shows "m \<in> MoodType"
    and "map ci_mood (checkIns (handleConfirm (Some m) body r s)) = m # map ci_mood (checkIns s)"
  using assms
  by (auto simp add: moodButtons_def MoodType_def handleConfirm_def addCheckIn_def newCheckIn_def
      Let_def)

lemma shakeListener_quiet:
  assumes "magnitude x y z \<le> SHAKE_THRESHOLD \<or> now - lastShakeTime w \<le> SHAKE_COOLDOWN_MS"
  shows "shakeListener x y z now r1 r2 (w, a) = (w\<lparr>shakeValue := magnitude x y z\<rparr>, a)"
  using assms by (auto simp add: Let_def)

lemma shakeListener_trigger:
  assumes "magnitude x y z > SHAKE_THRESHOLD" and "now - lastShakeTime w > SHAKE_COOLDOWN_MS"
  shows "shakeListener x y z now r1 r2 (w, a) =
     (w\<lparr>shakeValue := magnitude x y z, lastShakeTime := now\<rparr>,
      scheduleNotificationAsync shakeNotification
        (logAlertEvent r2 Shake shakeMessage
          (addCheckIn r1 ''angry'' shakeSymptoms (hapticWarning a))))"
  using assms by (simp add: Let_def)

lemma shakeSample_lastShakeTime:
  "lastShakeTime (fst (shakeSample s st)) =
     (if fired s st then sample_now s else lastShakeTime (fst st))"
proof (cases st)
  case (Pair w a)
  show ?thesis
  proof (cases "magnitude (sample_x s) (sample_y s) (sample_z s) > SHAKE_THRESHOLD
                \<and> sample_now s - lastShakeTime w > SHAKE_COOLDOWN_MS")
    case True
    then show ?thesis
      using Pair
      by (simp add: shakeSample_def fired_def shakeListener_trigger scheduleNotificationAsync_def
          logAlertEvent_def addCheckIn_def hapticWarning_def del: shakeListener.simps)
  next
    case False
    then have "magnitude (sample_x s) (sample_y s) (sample_z s) \<le> SHAKE_THRESHOLD
        \<or> sample_now s - lastShakeTime w \<le> SHAKE_COOLDOWN_MS"
      by auto
    then show ?thesis
      using Pair
      by (simp add: shakeSample_def fired_def shakeListener_quiet del: shakeListener.simps)
  qed
qed

lemma lastFired_tracks:
  "lastShakeTime (fst st) = (case prev of Some t \<Rightarrow> t | None \<Rightarrow> d) \<Longrightarrow>
     lastShakeTime (fst (fold shakeSample ss st)) =
       (case lastFired ss st prev of Some t \<Rightarrow> t | None \<Rightarrow> d)"
proof (induction ss arbitrary: st prev)
  case Nil
  then show ?case by simp
next
  case (Cons s ss)
  have "lastShakeTime (fst (shakeSample s st)) =
      (case (if fired s st then Some (sample_now s) else prev) of Some t \<Rightarrow> t | None \<Rightarrow> d)"
    using Cons.prems by (simp add: shakeSample_lastShakeTime)
  from Cons.IH [OF this] show ?case by simp
qed

lemma lastShakeTime_previousTrigger:
  "lastShakeTime (fst (shakeStream pre (initialShakeWatcher, a0))) =
     (case previousTrigger pre (initialShakeWatcher, a0) of Some t \<Rightarrow> t | None \<Rightarrow> 0)"
  unfolding shakeStream_def previousTrigger_def
  by (rule lastFired_tracks) (simp add: initialShakeWatcher_def)

section \<open>The claims\<close>

text \<open>
  C1. The alert type passed to \<open>logAlertEvent\<close> on a trigger, evaluated for each watcher
  from the initial state: the Light watcher at brightness 0.9 and the Noise watcher at peak
  level -5 both log an alert of type \<open>manual_high_risk\<close>, not their own tags
  \<open>light_high\<close> and \<open>noise_high\<close>; the Movement watcher logs its own tag \<open>shake\<close>.
\<close>

theorem C1_alert_tags:
  "map ae_type (alerts (snd (lightCycle \<lparr>systemBrightness = Inr 0.9, appBrightness = Inr 0.9\<rparr>
      1700000000000 (sampleReadings 1700000000000) (sampleReadings 1700000000000)
      (initialLightWatcher, initialApp)))) = [Manual_high_risk]
   \<and> map ae_type (alerts (snd (noiseCycle
      \<lparr>recording_error = None, meterings = [Some (- 5)], stop_error = None\<rparr>
      1700000000000 (sampleReadings 1700000000000) (sampleReadings 1700000000000)
      (initialNoiseWatcher, initialApp)))) = [Manual_high_risk]
   \<and> map ae_type (alerts (snd (shakeListener 0 0 3
      1700000000000 (sampleReadings 1700000000000) (sampleReadings 1700000000000)
      (initialShakeWatcher, initialApp)))) = [Shake]"
  by (simp add: readLevel_def VERY_BRIGHT_THRESHOLD_def LIGHT_COOLDOWN_MS_def initialLightWatcher_def
      initialApp_def Let_def scheduleNotificationAsync_def logAlertEvent_def addCheckIn_def
      recordingWarnings_def VERY_LOUD_THRESHOLD_def NOISE_COOLDOWN_MS_def initialNoiseWatcher_def
      magnitude_z SHAKE_THRESHOLD_def SHAKE_COOLDOWN_MS_def initialShakeWatcher_def hapticWarning_def
      newAlertEvent_def)

text \<open>
  C2. Starting from the empty store, after any sequence of \<open>addCheckIn\<close> calls the
  check-in log holds exactly the entries built by the calls, the most recent call's entry
  first, so its length is the number of calls; the same holds for \<open>logAlertEvent\<close> and
  the alert log.
\<close>

theorem C2_logs_newest_first:
  "checkIns (addCheckIns calls initialState) = rev (map (\<lambda>(r, m, syms). newCheckIn r m syms) calls)
   \<and> length (checkIns (addCheckIns calls initialState)) = length calls
   \<and> alerts (logAlertEvents acalls initialState) = rev (map (\<lambda>(r, t, msg). newAlertEvent r t msg) acalls)
   \<and> length (alerts (logAlertEvents acalls initialState)) = length acalls"
  by (simp add: addCheckIns_def logAlertEvents_def fold_addCheckIn_checkIns
      fold_logAlertEvent_alerts initialState_def)

text \<open>
  C3 (as the code has it). Let a sample arrive after any sample stream run from the
  initial watcher, and let \<open>prev\<close> be the time of the previous trigger in that stream,
  0 when there was none. A sample that does not exceed the threshold 2.3 produces nothing
  and does not restart the cooldown. A sample that exceeds it produces nothing when at most
  6000 ms separate \<open>now\<close> from \<open>prev\<close>, and exactly one CheckIn, one AlertEvent and
  one notification request when more than 6000 ms separate them.
\<close>

theorem C3_shake_cooldown:
  assumes "st = shakeStream pre (initialShakeWatcher, a0)"
    and "prev = (case previousTrigger pre (initialShakeWatcher, a0) of Some t \<Rightarrow> t | None \<Rightarrow> 0)"
    and "st' = shakeListener x y z now r1 r2 st"
  shows "(magnitude x y z \<le> SHAKE_THRESHOLD \<longrightarrow>
            checkIns (snd st') = checkIns (snd st)
          \<and> alerts (snd st') = alerts (snd st)
          \<and> scheduled (snd st') = scheduled (snd st)
          \<and> lastShakeTime (fst st') = lastShakeTime (fst st))
       \<and> (magnitude x y z > SHAKE_THRESHOLD \<and> now - prev \<le> 6000 \<longrightarrow>
            checkIns (snd st') = checkIns (snd st)
          \<and> alerts (snd st') = alerts (snd st)
          \<and> scheduled (snd st') = scheduled (snd st)
          \<and> lastShakeTime (fst st') = lastShakeTime (fst st))
       \<and> (magnitude x y z > SHAKE_THRESHOLD \<and> now - prev > 6000 \<longrightarrow>
            checkIns (snd st') = newCheckIn r1 ''angry'' shakeSymptoms # checkIns (snd st)
          \<and> alerts (snd st') = newAlertEvent r2 Shake shakeMessage # alerts (snd st)
          \<and> scheduled (snd st') = scheduled (snd st) @ [shakeNotification]
          \<and> lastShakeTime (fst st') = now)"
proof -
  obtain w a where st: "st = (w, a)" by (cases st)
  have "lastShakeTime (fst st) = prev"
    unfolding assms(1,2) by (rule lastShakeTime_previousTrigger)
  then have prev: "lastShakeTime w = prev"
    by (simp add: st)
  have quiet: "magnitude x y z \<le> SHAKE_THRESHOLD \<or> now - prev \<le> 6000 \<Longrightarrow>
      st' = (w\<lparr>shakeValue := magnitude x y z\<rparr>, a)"
    using shakeListener_quiet [of x y z now w r1 r2 a] assms(3) st prev
    by (simp add: SHAKE_COOLDOWN_MS_def del: shakeListener.simps)
  have loud: "magnitude x y z > SHAKE_THRESHOLD \<and> now - prev > 6000 \<Longrightarrow>
      st' = (w\<lparr>shakeValue := magnitude x y z, lastShakeTime := now\<rparr>,
        scheduleNotificationAsync shakeNotification
          (logAlertEvent r2 Shake shakeMessage
            (addCheckIn r1 ''angry'' shakeSymptoms (hapticWarning a))))"
    using shakeListener_trigger [of x y z now w r1 r2 a] assms(3) st prev
    by (simp add: SHAKE_COOLDOWN_MS_def del: shakeListener.simps)
  show ?thesis
  proof (intro conjI impI)
    assume g: "magnitude x y z \<le> SHAKE_THRESHOLD"
    from quiet g st show "checkIns (snd st') = checkIns (snd st)" 
      and "alerts (snd st') = alerts (snd st)"
      and "scheduled (snd st') = scheduled (snd st)"
      and "lastShakeTime (fst st') = lastShakeTime (fst st)"
      by simp_all
  next
    assume c: "magnitude x y z > SHAKE_THRESHOLD \<and> now - prev \<le> 6000"
    from quiet c st show "checkIns (snd st') = checkIns (snd st)" 
      and "alerts (snd st') = alerts (snd st)"
      and "scheduled (snd st') = scheduled (snd st)"
      and "lastShakeTime (fst st') = lastShakeTime (fst st)"
      by simp_all
  next
    assume t: "magnitude x y z > SHAKE_THRESHOLD \<and> now - prev > 6000"
    from loud [OF t] st
    show "checkIns (snd st') = newCheckIn r1 ''angry'' shakeSymptoms # checkIns (snd st)"
      and "alerts (snd st') = newAlertEvent r2 Shake shakeMessage # alerts (snd st)"
      and "scheduled (snd st') = scheduled (snd st) @ [shakeNotification]"
      and "lastShakeTime (fst st') = now"
      by (simp_all add: scheduleNotificationAsync_def logAlertEvent_def addCheckIn_def
          hapticWarning_def)
  qed
qed

theorem C3_shake_cooldown_witness:
  "previousTrigger [hardShake 1700000000000, gentleMove 1700000007000]
      (initialShakeWatcher, initialApp) = Some 1700000000000
   \<and> SHAKE_THRESHOLD < magnitude 0 0 3
   \<and> (6000 :: int) < 1700000007100 - 1700000000000
   \<and> checkIns (snd (shakeListener 0 0 3 1700000007100 (sampleReadings 1700000007100)
        (sampleReadings 1700000007100)
        (shakeStream [hardShake 1700000000000, gentleMove 1700000007000]
          (initialShakeWatcher, initialApp)))) =
       newCheckIn (sampleReadings 1700000007100) ''angry'' shakeSymptoms #
       checkIns (snd (shakeStream [hardShake 1700000000000, gentleMove 1700000007000]
          (initialShakeWatcher, initialApp)))
   \<and> alerts (snd (shakeListener 0 0 3 1700000007100 (sampleReadings 1700000007100)
        (sampleReadings 1700000007100)
        (shakeStream [hardShake 1700000000000, gentleMove 1700000007000]
          (initialShakeWatcher, initialApp)))) =
       newAlertEvent (sampleReadings 1700000007100) Shake shakeMessage #
       alerts (snd (shakeStream [hardShake 1700000000000, gentleMove 1700000007000]
          (initialShakeWatcher, initialApp)))
   \<and> previousTrigger [hardShake 1700000000000] (initialShakeWatcher, initialApp) = Some 1700000000000
   \<and> (1700000006000 :: int) - 1700000000000 \<le> 6000
   \<and> checkIns (snd (shakeListener 0 0 3 1700000006000 (sampleReadings 1700000006000)
        (sampleReadings 1700000006000)
        (shakeStream [hardShake 1700000000000] (initialShakeWatcher, initialApp)))) =
       checkIns (snd (shakeStream [hardShake 1700000000000] (initialShakeWatcher, initialApp)))
   \<and> magnitude 0 0 1 \<le> SHAKE_THRESHOLD
   \<and> checkIns (snd (shakeListener 0 0 1 1700000009000 (sampleReadings 1700000009000)
        (sampleReadings 1700000009000)
        (shakeStream [hardShake 1700000000000] (initialShakeWatcher, initialApp)))) =
       checkIns (snd (shakeStream [hardShake 1700000000000] (initialShakeWatcher, initialApp)))
   \<and> lastShakeTime (fst (shakeListener 0 0 1 1700000009000 (sampleReadings 1700000009000)
        (sampleReadings 1700000009000)
        (shakeStream [hardShake 1700000000000] (initialShakeWatcher, initialApp)))) =
       lastShakeTime (fst (shakeStream [hardShake 1700000000000] (initialShakeWatcher, initialApp)))"
proof -
  have p2: "previousTrigger [hardShake 1700000000000, gentleMove 1700000007000]
      (initialShakeWatcher, initialApp) = Some 1700000000000"
    by (simp add: previousTrigger_def fired_def shakeSample_def hardShake_def gentleMove_def
        magnitude_z SHAKE_THRESHOLD_def SHAKE_COOLDOWN_MS_def initialShakeWatcher_def initialApp_def
        Let_def scheduleNotificationAsync_def logAlertEvent_def addCheckIn_def hapticWarning_def)
  have p1: "previousTrigger [hardShake 1700000000000] (initialShakeWatcher, initialApp) =
      Some 1700000000000"
    by (simp add: previousTrigger_def fired_def shakeSample_def hardShake_def
        magnitude_z SHAKE_THRESHOLD_def SHAKE_COOLDOWN_MS_def initialShakeWatcher_def initialApp_def
        Let_def scheduleNotificationAsync_def logAlertEvent_def addCheckIn_def hapticWarning_def)
  have hard: "SHAKE_THRESHOLD < magnitude 0 0 3"
    by (simp add: magnitude_z SHAKE_THRESHOLD_def)
  have gentle: "magnitude 0 0 1 \<le> SHAKE_THRESHOLD"
    by (simp add: magnitude_z SHAKE_THRESHOLD_def)
  note fire = C3_shake_cooldown [where pre = "[hardShake 1700000000000, gentleMove 1700000007000]"
      and ?a0.0 = initialApp and x = 0 and y = 0 and z = 3 and now = 1700000007100
      and ?r1.0 = "sampleReadings 1700000007100" and ?r2.0 = "sampleReadings 1700000007100",
      OF refl refl refl]
  note hold = C3_shake_cooldown [where pre = "[hardShake 1700000000000]"
      and ?a0.0 = initialApp and x = 0 and y = 0 and z = 3 and now = 1700000006000
      and ?r1.0 = "sampleReadings 1700000006000" and ?r2.0 = "sampleReadings 1700000006000",
      OF refl refl refl]
  note soft = C3_shake_cooldown [where pre = "[hardShake 1700000000000]"
      and ?a0.0 = initialApp and x = 0 and y = 0 and z = 1 and now = 1700000009000
      and ?r1.0 = "sampleReadings 1700000009000" and ?r2.0 = "sampleReadings 1700000009000",
      OF refl refl refl]
  show ?thesis
    using fire hold soft hard gentle
    by (simp add: p1 p2 del: shakeListener.simps)
qed

text \<open>
  The claim as written asks for a trigger once 6 seconds or more have elapsed. Two samples
  of magnitude 3, the first at 1700000000000 ms from the initial state (it triggers and
  sets \<open>lastShakeTime\<close>), the second exactly 6000 ms later: the second produces no
  CheckIn and no AlertEvent.
\<close>

theorem C3_six_seconds_counterexample:
  "magnitude 0 0 3 > SHAKE_THRESHOLD
   \<and> lastShakeTime (fst (shakeListener 0 0 3 1700000000000 (sampleReadings 1700000000000)
        (sampleReadings 1700000000000) (initialShakeWatcher, initialApp))) = 1700000000000
   \<and> (1700000006000 :: int) - 1700000000000 \<ge> 6000
   \<and> checkIns (snd (shakeListener 0 0 3 1700000006000 (sampleReadings 1700000006000)
        (sampleReadings 1700000006000)
        (shakeListener 0 0 3 1700000000000 (sampleReadings 1700000000000)
          (sampleReadings 1700000000000) (initialShakeWatcher, initialApp))))
     = checkIns (snd (shakeListener 0 0 3 1700000000000 (sampleReadings 1700000000000)
          (sampleReadings 1700000000000) (initialShakeWatcher, initialApp)))
   \<and> alerts (snd (shakeListener 0 0 3 1700000006000 (sampleReadings 1700000006000)
        (sampleReadings 1700000006000)
        (shakeListener 0 0 3 1700000000000 (sampleReadings 1700000000000)
          (sampleReadings 1700000000000) (initialShakeWatcher, initialApp))))
     = alerts (snd (shakeListener 0 0 3 1700000000000 (sampleReadings 1700000000000)
          (sampleReadings 1700000000000) (initialShakeWatcher, initialApp)))"
  by (simp add: magnitude_z SHAKE_THRESHOLD_def SHAKE_COOLDOWN_MS_def initialShakeWatcher_def Let_def)

text \<open>
  C4 (as the code has it). The Light watcher tests \<open>level >= 0.85\<close>. A reading below
  0.85 emits nothing: no CheckIn, no AlertEvent, no notification. A reading of at least
  0.85, the value 0.85 itself included, taken more than 5 minutes after
  \<open>lastLightAlert\<close>, emits exactly one CheckIn, one AlertEvent and one notification.
\<close>

theorem C4_light_threshold:
  "(fst (readLevel rd a) < VERY_BRIGHT_THRESHOLD \<longrightarrow>
      checkIns (snd (lightCycle rd now r1 r2 (w, a))) = checkIns a
    \<and> alerts (snd (lightCycle rd now r1 r2 (w, a))) = alerts a
    \<and> scheduled (snd (lightCycle rd now r1 r2 (w, a))) = scheduled a)
   \<and> (fst (readLevel rd a) \<ge> VERY_BRIGHT_THRESHOLD \<and> now - lastLightAlert w > LIGHT_COOLDOWN_MS \<longrightarrow>
      checkIns (snd (lightCycle rd now r1 r2 (w, a))) = newCheckIn r1 ''overwhelmed'' lightSymptoms # checkIns a
    \<and> alerts (snd (lightCycle rd now r1 r2 (w, a))) = newAlertEvent r2 Manual_high_risk lightMessage # alerts a
    \<and> scheduled (snd (lightCycle rd now r1 r2 (w, a))) = scheduled a @ [lightNotification])"
  by (simp add: Let_def scheduleNotificationAsync_def logAlertEvent_def addCheckIn_def)

theorem C4_light_threshold_witness:
  "fst (readLevel \<lparr>systemBrightness = Inr 0.5, appBrightness = Inr 0.5\<rparr> initialApp)
      < VERY_BRIGHT_THRESHOLD
   \<and> checkIns (snd (lightCycle \<lparr>systemBrightness = Inr 0.5, appBrightness = Inr 0.5\<rparr>
        1700000000000 (sampleReadings 1700000000000) (sampleReadings 1700000000000)
        (initialLightWatcher, initialApp))) = []
   \<and> alerts (snd (lightCycle \<lparr>systemBrightness = Inr 0.5, appBrightness = Inr 0.5\<rparr>
        1700000000000 (sampleReadings 1700000000000) (sampleReadings 1700000000000)
        (initialLightWatcher, initialApp))) = []
   \<and> scheduled (snd (lightCycle \<lparr>systemBrightness = Inr 0.5, appBrightness = Inr 0.5\<rparr>
        1700000000000 (sampleReadings 1700000000000) (sampleReadings 1700000000000)
        (initialLightWatcher, initialApp))) = []
   \<and> VERY_BRIGHT_THRESHOLD
      \<le> fst (readLevel \<lparr>systemBrightness = Inl ''unavailable'', appBrightness = Inr 0.9\<rparr> initialApp)
   \<and> LIGHT_COOLDOWN_MS < 1700000000000 - lastLightAlert initialLightWatcher
   \<and> checkIns (snd (lightCycle \<lparr>systemBrightness = Inl ''unavailable'', appBrightness = Inr 0.9\<rparr>
        1700000000000 (sampleReadings 1700000000000) (sampleReadings 1700000000000)
        (initialLightWatcher, initialApp))) =
       [newCheckIn (sampleReadings 1700000000000) ''overwhelmed'' lightSymptoms]
   \<and> alerts (snd (lightCycle \<lparr>systemBrightness = Inl ''unavailable'', appBrightness = Inr 0.9\<rparr>
        1700000000000 (sampleReadings 1700000000000) (sampleReadings 1700000000000)
        (initialLightWatcher, initialApp))) =
       [newAlertEvent (sampleReadings 1700000000000) Manual_high_risk lightMessage]"
proof -
  have lo: "fst (readLevel \<lparr>systemBrightness = Inr 0.5, appBrightness = Inr 0.5\<rparr> initialApp)
      < VERY_BRIGHT_THRESHOLD"
    by (simp add: readLevel_def VERY_BRIGHT_THRESHOLD_def)
  have hi: "VERY_BRIGHT_THRESHOLD
      \<le> fst (readLevel \<lparr>systemBrightness = Inl ''unavailable'', appBrightness = Inr 0.9\<rparr> initialApp)"
    by (simp add: readLevel_def VERY_BRIGHT_THRESHOLD_def)
  have cd: "LIGHT_COOLDOWN_MS < 1700000000000 - lastLightAlert initialLightWatcher"
    by (simp add: LIGHT_COOLDOWN_MS_def initialLightWatcher_def)
  show ?thesis
    using lo hi cd
      C4_light_threshold [where rd = "\<lparr>systemBrightness = Inr 0.5, appBrightness = Inr 0.5\<rparr>"
        and a = initialApp and now = 1700000000000 and w = initialLightWatcher
        and ?r1.0 = "sampleReadings 1700000000000" and ?r2.0 = "sampleReadings 1700000000000"]
      C4_light_threshold [where
        rd = "\<lparr>systemBrightness = Inl ''unavailable'', appBrightness = Inr 0.9\<rparr>"
        and a = initialApp and now = 1700000000000 and w = initialLightWatcher
        and ?r1.0 = "sampleReadings 1700000000000" and ?r2.0 = "sampleReadings 1700000000000"]
    by (simp add: initialApp_def)
qed

text \<open>
  The claim as written says a reading exactly equal to 0.85 emits nothing. From the
  initial state, a reading of 0.85 (which does not exceed the threshold) emits one CheckIn
  and one AlertEvent.
\<close>

theorem C4_equal_reading_counterexample:
  "fst (readLevel \<lparr>systemBrightness = Inr 0.85, appBrightness = Inr 0.85\<rparr> initialApp) = 0.85
   \<and> \<not> fst (readLevel \<lparr>systemBrightness = Inr 0.85, appBrightness = Inr 0.85\<rparr> initialApp) > VERY_BRIGHT_THRESHOLD
   \<and> length (checkIns (snd (lightCycle \<lparr>systemBrightness = Inr 0.85, appBrightness = Inr 0.85\<rparr>
        1700000000000 (sampleReadings 1700000000000) (sampleReadings 1700000000000)
        (initialLightWatcher, initialApp)))) = 1
   \<and> length (alerts (snd (lightCycle \<lparr>systemBrightness = Inr 0.85, appBrightness = Inr 0.85\<rparr>
        1700000000000 (sampleReadings 1700000000000) (sampleReadings 1700000000000)
        (initialLightWatcher, initialApp)))) = 1"
  by (simp add: readLevel_def VERY_BRIGHT_THRESHOLD_def LIGHT_COOLDOWN_MS_def initialLightWatcher_def
      initialApp_def Let_def scheduleNotificationAsync_def logAlertEvent_def addCheckIn_def)

text \<open>
  C5. When the peak level metered over a Noise watcher window (the maximum of -160 and
  the metering values delivered) is below the threshold -12, the pass produces no
  CheckIn, no AlertEvent and no notification request and leaves \<open>lastNoiseAlert\<close>
  as it was, whatever \<open>now\<close> and \<open>lastNoiseAlert\<close> are.
\<close>

theorem C5_quiet_window_no_alert:
  assumes "peakLevel (meterings win) (- 160) < VERY_LOUD_THRESHOLD"
  shows "checkIns (snd (noiseCycle win now r1 r2 (w, a))) = checkIns a
       \<and> alerts (snd (noiseCycle win now r1 r2 (w, a))) = alerts a
       \<and> scheduled (snd (noiseCycle win now r1 r2 (w, a))) = scheduled a
       \<and> lastNoiseAlert (fst (noiseCycle win now r1 r2 (w, a))) = lastNoiseAlert w"
  using assms by (simp add: Let_def)

theorem C5_quiet_window_no_alert_witness:
  "peakLevel (meterings \<lparr>recording_error = None, meterings = [Some (- 30), None, Some (- 20)], stop_error = None\<rparr>) (- 160)
      < VERY_LOUD_THRESHOLD
   \<and> checkIns (snd (noiseCycle \<lparr>recording_error = None, meterings = [Some (- 30), None, Some (- 20)], stop_error = None\<rparr>
        1700000000000 (sampleReadings 1700000000000) (sampleReadings 1700000000001)
        (initialNoiseWatcher, initialApp))) = []
   \<and> alerts (snd (noiseCycle \<lparr>recording_error = None, meterings = [Some (- 30), None, Some (- 20)], stop_error = None\<rparr>
        1700000000000 (sampleReadings 1700000000000) (sampleReadings 1700000000001)
        (initialNoiseWatcher, initialApp))) = []
   \<and> scheduled (snd (noiseCycle \<lparr>recording_error = None, meterings = [Some (- 30), None, Some (- 20)], stop_error = None\<rparr>
        1700000000000 (sampleReadings 1700000000000) (sampleReadings 1700000000001)
        (initialNoiseWatcher, initialApp))) = []"
proof -
  have h: "peakLevel (meterings \<lparr>recording_error = None, meterings = [Some (- 30), None, Some (- 20)], stop_error = None\<rparr>) (- 160)
      < VERY_LOUD_THRESHOLD"
    by (simp add: VERY_LOUD_THRESHOLD_def)
  show ?thesis
    using h C5_quiet_window_no_alert [OF h, of 1700000000000 "sampleReadings 1700000000000"
        "sampleReadings 1700000000001" initialNoiseWatcher initialApp]
    by (simp add: initialApp_def)
qed




text \<open>
  C7. When a watcher has triggered and the promise of \<open>scheduleNotificationAsync\<close> is
  rejected (for the Noise watcher: both promises), the \<open>catch\<close> handler only writes a
  warning to the console: the check-in log and the alert log still hold the CheckIn and the
  AlertEvent of that trigger in front of what they held before.
\<close>

theorem C7_notification_failure_keeps_records:
  "(SHAKE_THRESHOLD < magnitude x y z \<and> SHAKE_COOLDOWN_MS < now - lastShakeTime sw \<longrightarrow>
      checkIns (shakeNotificationSettled (Rejected err)
        (snd (shakeListener x y z now r1 r2 (sw, a)))) = newCheckIn r1 ''angry'' shakeSymptoms # checkIns a
    \<and> alerts (shakeNotificationSettled (Rejected err)
        (snd (shakeListener x y z now r1 r2 (sw, a)))) = newAlertEvent r2 Shake shakeMessage # alerts a
    \<and> console (shakeNotificationSettled (Rejected err)
        (snd (shakeListener x y z now r1 r2 (sw, a)))) =
          console a @ [Warn ''Failed to schedule shake notification:'' err])
   \<and> (VERY_LOUD_THRESHOLD < peakLevel (meterings win) (- 160) \<and> NOISE_COOLDOWN_MS < now - lastNoiseAlert nw \<longrightarrow>
      checkIns (noiseFollowUpSettled (Rejected err2) (noiseNotificationSettled (Rejected err)
        (snd (noiseCycle win now r1 r2 (nw, a))))) = newCheckIn r1 ''overwhelmed'' noiseSymptoms # checkIns a
    \<and> alerts (noiseFollowUpSettled (Rejected err2) (noiseNotificationSettled (Rejected err)
        (snd (noiseCycle win now r1 r2 (nw, a))))) =
          newAlertEvent r2 Manual_high_risk noiseMessage # alerts a
    \<and> console (noiseFollowUpSettled (Rejected err2) (noiseNotificationSettled (Rejected err)
        (snd (noiseCycle win now r1 r2 (nw, a))))) =
          console (recordingWarnings win a) @
            [Warn ''Failed to schedule noise notification:'' err,
             Warn ''Failed to schedule noise follow-up notification:'' err2])
   \<and> (VERY_BRIGHT_THRESHOLD \<le> fst (readLevel rd a) \<and> LIGHT_COOLDOWN_MS < now - lastLightAlert lw \<longrightarrow>
      checkIns (lightNotificationSettled (Rejected err)
        (snd (lightCycle rd now r1 r2 (lw, a)))) = newCheckIn r1 ''overwhelmed'' lightSymptoms # checkIns a
    \<and> alerts (lightNotificationSettled (Rejected err)
        (snd (lightCycle rd now r1 r2 (lw, a)))) =
          newAlertEvent r2 Manual_high_risk lightMessage # alerts a
    \<and> console (lightNotificationSettled (Rejected err)
        (snd (lightCycle rd now r1 r2 (lw, a)))) =
          console (snd (readLevel rd a)) @ [Warn ''Failed to schedule light notification:'' err])"
  by (simp add: Let_def shakeNotificationSettled_def noiseNotificationSettled_def
      noiseFollowUpSettled_def lightNotificationSettled_def catch_warn_def console_warn_def
      scheduleNotificationAsync_def logAlertEvent_def addCheckIn_def hapticWarning_def)

theorem C7_notification_failure_keeps_records_witness:
  "SHAKE_THRESHOLD < magnitude 0 0 3
   \<and> SHAKE_COOLDOWN_MS < 1700000000000 - lastShakeTime initialShakeWatcher
   \<and> checkIns (shakeNotificationSettled (Rejected ''denied'')
        (snd (shakeListener 0 0 3 1700000000000 (sampleReadings 1700000000000)
          (sampleReadings 1700000000001) (initialShakeWatcher, initialApp)))) =
       [newCheckIn (sampleReadings 1700000000000) ''angry'' shakeSymptoms]
   \<and> alerts (shakeNotificationSettled (Rejected ''denied'')
        (snd (shakeListener 0 0 3 1700000000000 (sampleReadings 1700000000000)
          (sampleReadings 1700000000001) (initialShakeWatcher, initialApp)))) =
       [newAlertEvent (sampleReadings 1700000000001) Shake shakeMessage]
   \<and> console (shakeNotificationSettled (Rejected ''denied'')
        (snd (shakeListener 0 0 3 1700000000000 (sampleReadings 1700000000000)
          (sampleReadings 1700000000001) (initialShakeWatcher, initialApp)))) =
       [Warn ''Failed to schedule shake notification:'' ''denied'']
   \<and> VERY_LOUD_THRESHOLD
      < peakLevel (meterings \<lparr>recording_error = None, meterings = [Some (- 5)], stop_error = None\<rparr>) (- 160)
   \<and> NOISE_COOLDOWN_MS < 1700000000000 - lastNoiseAlert initialNoiseWatcher
   \<and> checkIns (noiseFollowUpSettled (Rejected ''late'') (noiseNotificationSettled (Rejected ''denied'')
        (snd (noiseCycle \<lparr>recording_error = None, meterings = [Some (- 5)], stop_error = None\<rparr>
          1700000000000 (sampleReadings 1700000000000) (sampleReadings 1700000000001)
          (initialNoiseWatcher, initialApp))))) =
       [newCheckIn (sampleReadings 1700000000000) ''overwhelmed'' noiseSymptoms]
   \<and> alerts (noiseFollowUpSettled (Rejected ''late'') (noiseNotificationSettled (Rejected ''denied'')
        (snd (noiseCycle \<lparr>recording_error = None, meterings = [Some (- 5)], stop_error = None\<rparr>
          1700000000000 (sampleReadings 1700000000000) (sampleReadings 1700000000001)
          (initialNoiseWatcher, initialApp))))) =
       [newAlertEvent (sampleReadings 1700000000001) Manual_high_risk noiseMessage]
   \<and> VERY_BRIGHT_THRESHOLD
      \<le> fst (readLevel \<lparr>systemBrightness = Inr 0.9, appBrightness = Inr 0.9\<rparr> initialApp)
   \<and> LIGHT_COOLDOWN_MS < 1700000000000 - lastLightAlert initialLightWatcher
   \<and> checkIns (lightNotificationSettled (Rejected ''denied'')
        (snd (lightCycle \<lparr>systemBrightness = Inr 0.9, appBrightness = Inr 0.9\<rparr>
          1700000000000 (sampleReadings 1700000000000) (sampleReadings 1700000000001)
          (initialLightWatcher, initialApp)))) =
       [newCheckIn (sampleReadings 1700000000000) ''overwhelmed'' lightSymptoms]
   \<and> alerts (lightNotificationSettled (Rejected ''denied'')
        (snd (lightCycle \<lparr>systemBrightness = Inr 0.9, appBrightness = Inr 0.9\<rparr>
          1700000000000 (sampleReadings 1700000000000) (sampleReadings 1700000000001)
          (initialLightWatcher, initialApp)))) =
       [newAlertEvent (sampleReadings 1700000000001) Manual_high_risk lightMessage]"
proof -
  have s1: "SHAKE_THRESHOLD < magnitude 0 0 3"
    by (simp add: magnitude_z SHAKE_THRESHOLD_def)
  have s2: "SHAKE_COOLDOWN_MS < 1700000000000 - lastShakeTime initialShakeWatcher"
    by (simp add: SHAKE_COOLDOWN_MS_def initialShakeWatcher_def)
  have n1: "VERY_LOUD_THRESHOLD
      < peakLevel (meterings \<lparr>recording_error = None, meterings = [Some (- 5)], stop_error = None\<rparr>) (- 160)"
    by (simp add: VERY_LOUD_THRESHOLD_def)
  have n2: "NOISE_COOLDOWN_MS < 1700000000000 - lastNoiseAlert initialNoiseWatcher"
    by (simp add: NOISE_COOLDOWN_MS_def initialNoiseWatcher_def)
  have l1: "VERY_BRIGHT_THRESHOLD
      \<le> fst (readLevel \<lparr>systemBrightness = Inr 0.9, appBrightness = Inr 0.9\<rparr> initialApp)"
    by (simp add: readLevel_def VERY_BRIGHT_THRESHOLD_def)
  have l2: "LIGHT_COOLDOWN_MS < 1700000000000 - lastLightAlert initialLightWatcher"
    by (simp add: LIGHT_COOLDOWN_MS_def initialLightWatcher_def)
  show ?thesis
    using s1 s2 n1 n2 l1 l2
      C7_notification_failure_keeps_records [where x = 0 and y = 0 and z = 3
        and now = 1700000000000 and sw = initialShakeWatcher and nw = initialNoiseWatcher
        and lw = initialLightWatcher and a = initialApp
        and ?r1.0 = "sampleReadings 1700000000000" and ?r2.0 = "sampleReadings 1700000000001"
        and win = "\<lparr>recording_error = None, meterings = [Some (- 5)], stop_error = None\<rparr>"
        and rd = "\<lparr>systemBrightness = Inr 0.9, appBrightness = Inr 0.9\<rparr>"
        and err = "''denied''" and ?err2.0 = "''late''"]
    by (simp add: initialApp_def)
qed

text \<open>
  C8. A second \<open>setProfile\<close> with the same value changes nothing: the store after the
  second call equals the store after the first, so the profile is the same, and both logs
  are what they were before the first call.
\<close>

theorem C8_setProfile_idempotent:
  "setProfile p (setProfile p s) = setProfile p s
   \<and> profile (setProfile p (setProfile p s)) = profile (setProfile p s)
   \<and> checkIns (setProfile p (setProfile p s)) = checkIns (setProfile p s)
   \<and> alerts (setProfile p (setProfile p s)) = alerts (setProfile p s)
   \<and> checkIns (setProfile p (setProfile p s)) = checkIns s
   \<and> alerts (setProfile p (setProfile p s)) = alerts s"
  by (simp add: setProfile_def)

text \<open>
  C9. Whatever a pass of one of the three watchers adds in front of the check-in log
  (nothing, or the one CheckIn of a trigger) is classified as sensor-originated by
  \<open>isSensorLike\<close>.
\<close>

theorem C9_watcher_checkins_sensor_like:
  "(\<exists>new. checkIns (snd (shakeListener x y z now r1 r2 (sw, a))) = new @ checkIns a
       \<and> list_all (\<lambda>c. isSensorLike (entryOfCheckIn c)) new)
   \<and> (\<exists>new. checkIns (snd (noiseCycle win now r1 r2 (nw, a))) = new @ checkIns a
       \<and> list_all (\<lambda>c. isSensorLike (entryOfCheckIn c)) new)
   \<and> (\<exists>new. checkIns (snd (lightCycle rd now r1 r2 (lw, a))) = new @ checkIns a
       \<and> list_all (\<lambda>c. isSensorLike (entryOfCheckIn c)) new)"
  by (intro conjI shake_emits noise_emits light_emits)

theorem C9_watcher_checkins_sensor_like_witness:
  "length (checkIns (snd (shakeListener 0 0 3 1700000000000 (sampleReadings 1700000000000)
      (sampleReadings 1700000000000) (initialShakeWatcher, initialApp)))) = 1
   \<and> isSensorLike (entryOfCheckIn (hd (checkIns (snd (shakeListener 0 0 3 1700000000000
      (sampleReadings 1700000000000) (sampleReadings 1700000000000)
      (initialShakeWatcher, initialApp))))))"
proof -
  let ?a = "snd (shakeListener 0 0 3 1700000000000 (sampleReadings 1700000000000)
      (sampleReadings 1700000000000) (initialShakeWatcher, initialApp))"
  have len: "length (checkIns ?a) = 1"
    by (simp add: magnitude_z SHAKE_THRESHOLD_def SHAKE_COOLDOWN_MS_def initialShakeWatcher_def
        initialApp_def Let_def scheduleNotificationAsync_def logAlertEvent_def addCheckIn_def
        hapticWarning_def)
  obtain new where new: "checkIns ?a = new @ checkIns initialApp"
      "list_all (\<lambda>c. isSensorLike (entryOfCheckIn c)) new"
    using C9_watcher_checkins_sensor_like [of 0 0 3 1700000000000 "sampleReadings 1700000000000"
        "sampleReadings 1700000000000" initialShakeWatcher initialApp] by blast
  from new(1) have eq: "checkIns ?a = new" by (simp add: initialApp_def)
  with len obtain c where c: "new = [c]" by (cases new) auto
  with new(2) eq have "isSensorLike (entryOfCheckIn (hd (checkIns ?a)))" by simp
  with len show ?thesis by simp
qed

text \<open>
  C10. Each store operation changes only its own field: \<open>addCheckIn\<close> leaves the alert
  log and the profile as they were, \<open>logAlertEvent\<close> leaves the check-in log and the
  profile, and \<open>setProfile\<close> leaves both logs.
\<close>

theorem C10_store_frame:
  "alerts (addCheckIn r m syms s) = alerts s
   \<and> profile (addCheckIn r m syms s) = profile s
   \<and> checkIns (logAlertEvent r t msg s) = checkIns s
   \<and> profile (logAlertEvent r t msg s) = profile s
   \<and> checkIns (setProfile p s) = checkIns s
   \<and> alerts (setProfile p s) = alerts s"
  by (simp add: addCheckIn_def logAlertEvent_def setProfile_def)

end
